theory Spec2Isabelle
  imports Main "HOL-Library.Word"
begin

section \<open>Data model of \<^verbatim>\<open>eventlog_socket.c\<close>\<close>

text \<open>
  The C file keeps four statics (\<^verbatim>\<open>initialized\<close>, \<^verbatim>\<open>listen_fd\<close>, \<^verbatim>\<open>client_fd\<close> and the
  synchronisation objects) and talks to the kernel, to pthreads and to the GHC runtime.
  The model keeps the statics in a record and writes every call that leaves the file
  into a trace, in program order. What the outside answers (the return value of a
  system call, the value another thread stored while this one slept) is an argument of
  the modelled function. Taking the mutex is a call like the others: it is recorded and
  it succeeds. That the critical sections of the threads exclude each other is part of
  the transition system of the listener, further down.

  Integer widths are those of Linux on a 64-bit machine: \<^verbatim>\<open>size_t\<close> and \<^verbatim>\<open>ssize_t\<close> have
  64 bits, \<^verbatim>\<open>int\<close> has 32. File descriptors are only compared, never computed with, so
  they are plain integers.
\<close>

type_synonym byte = "8 word"
type_synonym size_t = "64 word"
type_synonym ssize_t = "64 word"
type_synonym c_int = "32 word"

text \<open>The messages of \<^verbatim>\<open>PRINT_ERR\<close>, \<^verbatim>\<open>printf\<close> and \<^verbatim>\<open>errorBelch\<close>, one constructor per format
  string, with the values formatted into it.\<close>

datatype log_msg =
    FailedToWrite int
  | ListenFailed int
  | PollFailed int
  | FailedToBind string int
  | FailedToSpawn int
  | NotSupported
  | WaitingForConnection string
  | NoTickySupport
  | UnknownTraceOption char

datatype event =
    EvMutexInit
  | EvCondInit
  | EvLock
  | EvUnlock
  | EvCondWait
  | EvCondBroadcast
  | EvWrite int "byte list"
  | EvWriteFailed int int
  | EvClose int
  | EvSocket int
  | EvUnlink string
  | EvBind int string int
  | EvListen int int int
  | EvAccept int int
  | EvPoll int int
  | EvPthreadCreate int
  | EvGetenv string
  | EvEventLogStatus
  | EvStartEventLogging
  | EvEndEventLogging
  | EvPrintErr log_msg
  | EvPrintf log_msg
  | EvErrorBelch log_msg
  | EvAssertFailed
  | EvAbort
  | EvStoreClientFd int

text \<open>\<^verbatim>\<open>RtsFlags.TraceFlags\<close> of the runtime, the fields the file assigns.\<close>

datatype trace_mode = TRACE_NONE | TRACE_EVENTLOG | TRACE_STDERR

record trace_flags =
  tracing :: trace_mode
  timestamp :: bool
  scheduler :: bool
  gc :: bool
  nonmoving_gc :: bool
  sparks_sampled :: bool
  sparks_full :: bool
  ticky :: bool
  user :: bool

record state =
  initialized :: bool
  listen_fd :: int
  client_fd :: int
  errno :: int
  TraceFlags :: trace_flags
  trace :: "event list"

text \<open>How a modelled C function ends: it returns a value, the process aborts, or the
  function sits in a blocking call that the environment never answers.\<close>

datatype 'a outcome = Returned 'a state | Aborted state | Blocked state

definition emit :: "event \<Rightarrow> state \<Rightarrow> state" where
  "emit e s = s\<lparr>trace := trace s @ [e]\<rparr>"

definition pthread_mutex_lock :: "state \<Rightarrow> state" where
  "pthread_mutex_lock s = emit EvLock s"

definition pthread_mutex_unlock :: "state \<Rightarrow> state" where
  "pthread_mutex_unlock s = emit EvUnlock s"

definition PRINT_ERR :: "log_msg \<Rightarrow> state \<Rightarrow> state" where
  "PRINT_ERR m s = emit (EvPrintErr m) s"

section \<open>EventLogWriter\<close>

subsection \<open>The \<^verbatim>\<open>write\<close> system call\<close>

text \<open>
  The kernel's answer to one \<^verbatim>\<open>write(fd, buf, n)\<close>: an error with its \<^verbatim>\<open>errno\<close>, or the
  number of bytes the socket can take now. The call then transfers the first
  \<open>min k n\<close> bytes that \<^verbatim>\<open>buf\<close> points to and returns their number; on an error it
  transfers nothing, sets \<^verbatim>\<open>errno\<close> and returns \<open>-1\<close>. The caller's buffer holds at least
  \<open>n\<close> bytes.
\<close>

datatype write_reply = WriteFails int | WriteAccepts nat

definition sys_write :: "int \<Rightarrow> byte list \<Rightarrow> size_t \<Rightarrow> write_reply \<Rightarrow> state \<Rightarrow> ssize_t \<times> state" where
  "sys_write fd buf n r s =
     (case r of
        WriteFails e \<Rightarrow> (- 1, emit (EvWriteFailed fd e) (s\<lparr>errno := e\<rparr>))
      | WriteAccepts k \<Rightarrow>
          (word_of_nat (min k (unat n)), emit (EvWrite fd (take (min k (unat n)) buf)) s))"

subsection \<open>\<^verbatim>\<open>writer_init\<close>, \<^verbatim>\<open>writer_write\<close>, \<^verbatim>\<open>writer_flush\<close>, \<^verbatim>\<open>writer_stop\<close>\<close>

definition writer_init :: "state \<Rightarrow> state" where
  "writer_init s = s"

text \<open>
  The loop of \<^verbatim>\<open>writer_write\<close> (lines 49 to 63). \<^verbatim>\<open>eventlog\<close> is the memory the pointer
  refers to; the loop passes the same pointer to every \<^verbatim>\<open>write\<close> and only \<^verbatim>\<open>sz\<close>
  changes. \<^verbatim>\<open>int ret = write(..)\<close> keeps the low 32 bits of the \<^verbatim>\<open>ssize_t\<close>, and
  \<^verbatim>\<open>sz -= ret\<close> converts \<^verbatim>\<open>ret\<close> back to \<^verbatim>\<open>size_t\<close> with its sign. The replies of the
  kernel are consumed one per call; when they run out while bytes remain, the last
  \<^verbatim>\<open>write\<close> never returns.
\<close>

fun write_loop :: "int \<Rightarrow> byte list \<Rightarrow> size_t \<Rightarrow> write_reply list \<Rightarrow> state \<Rightarrow> bool outcome" where
  "write_loop fd eventlog sz [] s =
     (if 0 < sz then Blocked s
      else Returned True (pthread_mutex_unlock s))"
| "write_loop fd eventlog sz (r # rs) s =
     (if 0 < sz then
        (case sys_write fd eventlog sz r s of
           (n, s1) \<Rightarrow>
             (let ret = (ucast n :: c_int) in
              if ret = - 1 then
                Returned True (pthread_mutex_unlock (PRINT_ERR (FailedToWrite (errno s1)) s1))
              else write_loop fd eventlog (sz - scast ret) rs s1))
      else Returned True (pthread_mutex_unlock s))"

definition writer_write :: "byte list \<Rightarrow> size_t \<Rightarrow> write_reply list \<Rightarrow> state \<Rightarrow> bool outcome" where
  "writer_write eventlog sz rs s =
     (let s1 = pthread_mutex_lock s;
          fd = client_fd s1
      in if fd < 0 then Returned True (pthread_mutex_unlock s1)
         else write_loop fd eventlog sz rs s1)"

definition writer_flush :: "state \<Rightarrow> state" where
  "writer_flush s = s"

definition writer_stop :: "state \<Rightarrow> state" where
  "writer_stop s =
     (let s1 = pthread_mutex_lock s;
          s2 = (if 0 \<le> client_fd s1 then emit (EvClose (client_fd s1)) s1 else s1);
          s3 = s2\<lparr>client_fd := - 1\<rparr>
      in pthread_mutex_unlock s3)"

text \<open>The bytes a trace hands to the socket \<open>fd\<close>, in the order of the calls.\<close>

fun delivered :: "int \<Rightarrow> event list \<Rightarrow> byte list" where
  "delivered fd [] = []"
| "delivered fd (EvWrite f bs # es) = (if f = fd then bs @ delivered fd es else delivered fd es)"
| "delivered fd (e # es) = delivered fd es"

text \<open>\<open>ActiveClient\<close> of the specification, read off \<^verbatim>\<open>client_fd\<close> with the test that
  \<^verbatim>\<open>writer_write\<close> and \<^verbatim>\<open>writer_stop\<close> use: a negative value is no client.\<close>

definition ActiveClient :: "state \<Rightarrow> int option" where
  "ActiveClient s = (if client_fd s < 0 then None else Some (client_fd s))"

text \<open>The state an outcome ends in, and the events a call has added to a trace.\<close>

fun state_of :: "'a outcome \<Rightarrow> state" where
  "state_of (Returned v s) = s"
| "state_of (Aborted s) = s"
| "state_of (Blocked s) = s"

definition new_events :: "state \<Rightarrow> state \<Rightarrow> event list" where
  "new_events s s' = drop (length (trace s)) (trace s')"

section \<open>Initialization\<close>

subsection \<open>\<^verbatim>\<open>wait_for_connection\<close>\<close>

text \<open>
  One return of \<^verbatim>\<open>pthread_cond_wait\<close>: its return value, and the value that the other
  threads have left in \<^verbatim>\<open>client_fd\<close> by the time the waiter holds the mutex again. A
  spurious wakeup is \<open>Wakeup 0 (- 1)\<close>. When the wakeups run out the call never returns.
  The \<^verbatim>\<open>assert\<close> is compiled in (no \<^verbatim>\<open>NDEBUG\<close>): a non-zero return aborts the process.
\<close>

datatype wakeup = Wakeup int int

definition pthread_cond_wait :: "wakeup \<Rightarrow> state \<Rightarrow> int \<times> state" where
  "pthread_cond_wait w s = (case w of Wakeup r v \<Rightarrow> (r, emit EvCondWait (s\<lparr>client_fd := v\<rparr>)))"

fun wait_loop :: "wakeup list \<Rightarrow> state \<Rightarrow> unit outcome" where
  "wait_loop [] s =
     (if client_fd s = - 1 then Blocked s
      else Returned () (pthread_mutex_unlock s))"
| "wait_loop (w # ws) s =
     (if client_fd s = - 1 then
        (case pthread_cond_wait w s of
           (r, s1) \<Rightarrow>
             if r = 0 then wait_loop ws s1
             else Aborted (emit EvAbort (emit EvAssertFailed s1)))
      else Returned () (pthread_mutex_unlock s))"

definition wait_for_connection :: "wakeup list \<Rightarrow> state \<Rightarrow> unit outcome" where
  "wait_for_connection ws s = wait_loop ws (pthread_mutex_lock s)"

subsection \<open>\<^verbatim>\<open>open_socket\<close>\<close>

text \<open>The answers of the calls of \<^verbatim>\<open>open_socket\<close>: a return value and, for the calls that
  set it, the \<^verbatim>\<open>errno\<close> of a failure. \<^verbatim>\<open>sizeof(local.sun_path)\<close> is 108 on Linux.\<close>

record open_replies =
  socket_ret :: int
  socket_errno :: int
  unlink_ret :: int
  unlink_errno :: int
  bind_ret :: int
  bind_errno :: int
  pthread_create_ret :: int

definition sizeof_sun_path :: nat where
  "sizeof_sun_path = 108"

definition set_errno :: "int \<Rightarrow> int \<Rightarrow> state \<Rightarrow> state" where
  "set_errno ret e s = (if ret = - 1 then s\<lparr>errno := e\<rparr> else s)"

definition open_socket :: "string \<Rightarrow> open_replies \<Rightarrow> state \<Rightarrow> unit outcome" where
  "open_socket sock_path env s =
     (let s1 = set_errno (socket_ret env) (socket_errno env)
                 (emit (EvSocket (socket_ret env)) (s\<lparr>listen_fd := socket_ret env\<rparr>));
          sun_path = take (sizeof_sun_path - 1) sock_path;
          s2 = set_errno (unlink_ret env) (unlink_errno env) (emit (EvUnlink sock_path) s1);
          s3 = set_errno (bind_ret env) (bind_errno env)
                 (emit (EvBind (listen_fd s2) sun_path (bind_ret env)) s2)
      in if bind_ret env = - 1 then
           Aborted (emit EvAbort (PRINT_ERR (FailedToBind sock_path (errno s3)) s3))
         else
           (let ret = pthread_create_ret env;
                s4 = emit (EvPthreadCreate ret) s3
            in if ret \<noteq> 0 then Returned () (PRINT_ERR (FailedToSpawn ret) s4)
               else Returned () s4))"

section \<open>Entrypoint\<close>

subsection \<open>\<^verbatim>\<open>read_trace_flags\<close>\<close>

definition set_flags :: "(trace_flags \<Rightarrow> trace_flags) \<Rightarrow> state \<Rightarrow> state" where
  "set_flags f s = s\<lparr>TraceFlags := f (TraceFlags s)\<rparr>"

definition errorBelch :: "log_msg \<Rightarrow> state \<Rightarrow> state" where
  "errorBelch m s = emit (EvErrorBelch m) s"

text \<open>The \<^verbatim>\<open>for\<close> loop over the characters of \<^verbatim>\<open>arg\<close>, with the local \<^verbatim>\<open>enabled\<close>. The
  first argument says whether the file is compiled with \<^verbatim>\<open>TICKY_TICKY\<close>.\<close>

fun trace_flags_loop :: "bool \<Rightarrow> bool \<Rightarrow> string \<Rightarrow> state \<Rightarrow> state" where
  "trace_flags_loop tt enabled [] s = s"
| "trace_flags_loop tt enabled (c # cs) s =
     (if c = CHR 0x00 then s
      else if c = CHR ''-'' then trace_flags_loop tt False cs s
      else if c = CHR ''a'' then
        trace_flags_loop tt True cs
          (set_flags (\<lambda>f. f\<lparr>scheduler := enabled, gc := enabled, sparks_sampled := enabled,
                            sparks_full := enabled, user := enabled\<rparr>) s)
      else if c = CHR ''s'' then
        trace_flags_loop tt True cs (set_flags (\<lambda>f. f\<lparr>scheduler := enabled\<rparr>) s)
      else if c = CHR ''p'' then
        trace_flags_loop tt True cs (set_flags (\<lambda>f. f\<lparr>sparks_sampled := enabled\<rparr>) s)
      else if c = CHR ''f'' then
        trace_flags_loop tt True cs (set_flags (\<lambda>f. f\<lparr>sparks_full := enabled\<rparr>) s)
      else if c = CHR ''t'' then
        trace_flags_loop tt True cs (set_flags (\<lambda>f. f\<lparr>timestamp := enabled\<rparr>) s)
      else if c = CHR ''g'' then
        trace_flags_loop tt True cs (set_flags (\<lambda>f. f\<lparr>gc := enabled\<rparr>) s)
      else if c = CHR ''n'' then
        trace_flags_loop tt True cs (set_flags (\<lambda>f. f\<lparr>nonmoving_gc := enabled\<rparr>) s)
      else if c = CHR ''u'' then
        trace_flags_loop tt True cs (set_flags (\<lambda>f. f\<lparr>user := enabled\<rparr>) s)
      else if c = CHR ''T'' then
        (if tt then trace_flags_loop tt True cs (set_flags (\<lambda>f. f\<lparr>ticky := enabled\<rparr>) s)
         else trace_flags_loop tt enabled cs (errorBelch NoTickySupport s))
      else trace_flags_loop tt enabled cs (errorBelch (UnknownTraceOption c) s))"

definition read_trace_flags :: "bool \<Rightarrow> string \<Rightarrow> state \<Rightarrow> state" where
  "read_trace_flags tt arg s =
     trace_flags_loop tt True arg
       (set_flags (\<lambda>f. f\<lparr>scheduler := True, gc := True, sparks_sampled := True, user := True\<rparr>) s)"

subsection \<open>\<^verbatim>\<open>eventlog_socket_start\<close>\<close>

text \<open>
  The runtime's hooks are calls that leave the file: the model records them. What
  \<^verbatim>\<open>eventLogStatus()\<close> answers, at each of its two calls, and what \<^verbatim>\<open>getenv\<close> finds are
  answers of the environment. \<^verbatim>\<open>sock_path\<close> is \<open>None\<close> for a null pointer.
\<close>

datatype EventLogStatus = EVENTLOG_NOT_SUPPORTED | EVENTLOG_NOT_CONFIGURED | EVENTLOG_RUNNING

record start_replies =
  getenv_reply :: "string option"
  status_first :: EventLogStatus
  status_second :: EventLogStatus
  open_env :: open_replies
  wakeups :: "wakeup list"

definition endEventLogging :: "state \<Rightarrow> state" where
  "endEventLogging s = emit EvEndEventLogging s"

definition init_once :: "state \<Rightarrow> state" where
  "init_once s =
     (if \<not> initialized s then (emit EvCondInit (emit EvMutexInit s))\<lparr>initialized := True\<rparr>
      else s)"

definition eventlog_socket_start ::
    "bool \<Rightarrow> string option \<Rightarrow> bool \<Rightarrow> start_replies \<Rightarrow> state \<Rightarrow> unit outcome" where
  "eventlog_socket_start tt sock_path wait env s =
     (let s1 = init_once s;
          (sock_path1, s2) =
            (case sock_path of
               None \<Rightarrow> (getenv_reply env, emit (EvGetenv ''GHC_EVENTLOG_SOCKET'') s1)
             | Some p \<Rightarrow> (Some p, s1))
      in case sock_path1 of
           None \<Rightarrow> Returned () s2
         | Some path \<Rightarrow>
             (let s3 = emit EvEventLogStatus s2 in
              if status_first env = EVENTLOG_NOT_SUPPORTED then
                Returned () (PRINT_ERR NotSupported s3)
              else
                (let s4 = emit EvEventLogStatus s3;
                     s5 = (if status_second env = EVENTLOG_RUNNING then endEventLogging s4 else s4);
                     s6 = set_flags (\<lambda>f. f\<lparr>tracing := TRACE_EVENTLOG\<rparr>) s5;
                     s7 = read_trace_flags tt [] s6
                 in case open_socket path (open_env env) s7 of
                      Returned u s8 \<Rightarrow>
                        if wait then
                          wait_for_connection (wakeups env)
                            (emit (EvPrintf (WaitingForConnection path)) s8)
                        else Returned () s8
                    | Aborted s8 \<Rightarrow> Aborted s8
                    | Blocked s8 \<Rightarrow> Blocked s8)))"

section \<open>The listener thread, \<^verbatim>\<open>listen_socket\<close>\<close>

text \<open>
  \<^verbatim>\<open>listen_socket\<close> runs in a thread of its own, beside the threads of the runtime that
  call the writer. The model is a transition system. Its state is the shared state, the
  position of the listener in its loop (one position per statement that calls out or
  touches \<^verbatim>\<open>client_fd\<close>), the locals \<^verbatim>\<open>fd\<close> and \<^verbatim>\<open>pfd.fd\<close>, and the history of the listener
  thread: its calls and its stores to \<^verbatim>\<open>client_fd\<close>, in program order. A label is one
  step: a blocking call of the listener returns with an answer, the listener executes
  its next statement, or another thread runs \<^verbatim>\<open>writer_write\<close> or \<^verbatim>\<open>writer_stop\<close> from lock
  to unlock. The latter two cannot happen while the listener holds the mutex (lines 103
  to 106), and nothing happens after \<^verbatim>\<open>abort()\<close>. A \<^verbatim>\<open>writer_write\<close> that never returns
  is not a step. The hooks \<^verbatim>\<open>startEventLogging\<close> and \<^verbatim>\<open>endEventLogging\<close> belong to the
  runtime: the listener's step records the call, and what the runtime does in it with
  the writer shows as steps of \<^verbatim>\<open>writer_write\<close> and \<^verbatim>\<open>writer_stop\<close>.
\<close>

datatype pc =
    AtListen
  | AtAccept
  | AtLock
  | AtPublish
  | AtUnlock
  | AtStart
  | AtBroadcast
  | AtArm
  | AtPoll
  | AtClear
  | AtEnd
  | AtAbort

record system =
  shared :: state
  pc :: pc
  fd :: int
  pfd_fd :: int
  ltrace :: "event list"

datatype label =
    ListenReturns int int
  | AcceptReturns int
  | PollReturns int int
  | Listener
  | ProducerWrite "byte list" size_t "write_reply list"
  | ProducerStop

definition LISTEN_BACKLOG :: int where
  "LISTEN_BACKLOG = 5"

text \<open>\<^verbatim>\<open>EAGAIN\<close> of \<^verbatim>\<open>errno.h\<close>, on Linux.\<close>

definition EAGAIN :: int where
  "EAGAIN = 11"

definition lemit :: "event \<Rightarrow> system \<Rightarrow> system" where
  "lemit e sys = sys\<lparr>ltrace := ltrace sys @ [e]\<rparr>"

definition mutex_free :: "system \<Rightarrow> bool" where
  "mutex_free sys = (pc sys \<noteq> AtPublish \<and> pc sys \<noteq> AtUnlock \<and> pc sys \<noteq> AtAbort)"

fun listen_socket_step :: "label \<Rightarrow> system \<Rightarrow> system option" where
  "listen_socket_step (ListenReturns ret err) sys =
     (if pc sys = AtListen then
        (let sys1 = lemit (EvListen (listen_fd (shared sys)) LISTEN_BACKLOG ret) sys in
         if ret = - 1 then
           Some ((lemit EvAbort (lemit (EvPrintErr (ListenFailed err)) sys1))\<lparr>pc := AtAbort\<rparr>)
         else Some (sys1\<lparr>pc := AtAccept\<rparr>))
      else None)"
| "listen_socket_step (AcceptReturns f) sys =
     (if pc sys = AtAccept then
        Some ((lemit (EvAccept (listen_fd (shared sys)) f) sys)\<lparr>fd := f, pc := AtLock\<rparr>)
      else None)"
| "listen_socket_step Listener sys =
     (case pc sys of
        AtLock \<Rightarrow> Some ((lemit EvLock sys)\<lparr>pc := AtPublish\<rparr>)
      | AtPublish \<Rightarrow>
          Some ((lemit (EvStoreClientFd (fd sys)) sys)
                  \<lparr>shared := (shared sys)\<lparr>client_fd := fd sys\<rparr>, pc := AtUnlock\<rparr>)
      | AtUnlock \<Rightarrow> Some ((lemit EvUnlock sys)\<lparr>pc := AtStart\<rparr>)
      | AtStart \<Rightarrow> Some ((lemit EvStartEventLogging sys)\<lparr>pc := AtBroadcast\<rparr>)
      | AtBroadcast \<Rightarrow> Some ((lemit EvCondBroadcast sys)\<lparr>pc := AtArm\<rparr>)
      | AtArm \<Rightarrow> Some (sys\<lparr>pfd_fd := client_fd (shared sys), pc := AtPoll\<rparr>)
      | AtClear \<Rightarrow>
          Some ((lemit (EvStoreClientFd (- 1)) sys)
                  \<lparr>shared := (shared sys)\<lparr>client_fd := - 1\<rparr>, pc := AtEnd\<rparr>)
      | AtEnd \<Rightarrow> Some ((lemit EvEndEventLogging sys)\<lparr>pc := AtListen\<rparr>)
      | AtListen \<Rightarrow> None
      | AtAccept \<Rightarrow> None
      | AtPoll \<Rightarrow> None
      | AtAbort \<Rightarrow> None)"
| "listen_socket_step (PollReturns ret err) sys =
     (if pc sys = AtPoll then
        (let sys1 = lemit (EvPoll (pfd_fd sys) ret) sys in
         if ret = - 1 \<and> err \<noteq> EAGAIN then
           Some ((lemit (EvPrintErr (PollFailed err)) sys1)\<lparr>pc := AtClear\<rparr>)
         else if 0 < ret then Some (sys1\<lparr>pc := AtClear\<rparr>)
         else Some sys1)
      else None)"
| "listen_socket_step (ProducerWrite eventlog sz rs) sys =
     (if mutex_free sys then
        (case writer_write eventlog sz rs (shared sys) of
           Returned b s' \<Rightarrow> Some (sys\<lparr>shared := s'\<rparr>)
         | Aborted s' \<Rightarrow> None
         | Blocked s' \<Rightarrow> None)
      else None)"
| "listen_socket_step ProducerStop sys =
     (if mutex_free sys then Some (sys\<lparr>shared := writer_stop (shared sys)\<rparr>)
      else None)"

text \<open>A run: the labels one after the other; \<open>None\<close> when a label names a step that the
  state does not allow.\<close>

fun run :: "label list \<Rightarrow> system \<Rightarrow> system option" where
  "run [] sys = Some sys"
| "run (l # ls) sys =
     (case listen_socket_step l sys of
        None \<Rightarrow> None
      | Some sys' \<Rightarrow> run ls sys')"

text \<open>The listener thread starts at the top of its loop; \<^verbatim>\<open>client_fd\<close> still has its
  initial value \<open>-1\<close>.\<close>

definition listener_start :: "system \<Rightarrow> bool" where
  "listener_start sys = (pc sys = AtListen \<and> client_fd (shared sys) = - 1 \<and> ltrace sys = [])"

section \<open>Concrete states and answers\<close>

text \<open>The statics as the C file initialises them, with the runtime's tracing off.\<close>

definition startup :: state where
  "startup =
     \<lparr>initialized = False, listen_fd = - 1, client_fd = - 1, errno = 0,
      TraceFlags =
        \<lparr>tracing = TRACE_NONE, timestamp = False, scheduler = False, gc = False,
         nonmoving_gc = False, sparks_sampled = False, sparks_full = False,
         ticky = False, user = False\<rparr>,
      trace = []\<rparr>"

text \<open>After a successful start: the listening socket is descriptor 3 and
  \<^verbatim>\<open>client_fd\<close> holds \<open>f\<close>.\<close>

definition connected :: "int \<Rightarrow> state" where
  "connected f = startup\<lparr>initialized := True, listen_fd := 3, client_fd := f\<rparr>"

text \<open>\<^verbatim>\<open>socket\<close>, \<^verbatim>\<open>unlink\<close> and \<^verbatim>\<open>bind\<close> succeed; \<^verbatim>\<open>pthread_create\<close> returns \<^verbatim>\<open>EAGAIN\<close>.\<close>

definition spawn_fails :: open_replies where
  "spawn_fails =
     \<lparr>socket_ret = 3, socket_errno = 0, unlink_ret = 0, unlink_errno = 0,
      bind_ret = 0, bind_errno = 0, pthread_create_ret = 11\<rparr>"

text \<open>No \<^verbatim>\<open>GHC_EVENTLOG_SOCKET\<close> in the environment.\<close>

definition no_fallback :: start_replies where
  "no_fallback =
     \<lparr>getenv_reply = None, status_first = EVENTLOG_RUNNING, status_second = EVENTLOG_RUNNING,
      open_env = spawn_fails, wakeups = []\<rparr>"

text \<open>The system when the listener thread has just been created, and one session: a
  client connects as descriptor 7, the runtime writes three bytes, the client hangs up,
  the runtime stops the writer, and the listener is back in \<^verbatim>\<open>accept\<close>.\<close>

definition listener_spawned :: system where
  "listener_spawned = \<lparr>shared = connected (- 1), pc = AtListen, fd = 0, pfd_fd = 0, ltrace = []\<rparr>"

definition one_session :: "label list" where
  "one_session =
     [ListenReturns 0 0, AcceptReturns 7, Listener, Listener, Listener, Listener,
      ProducerWrite [97, 98, 99] 3 [WriteAccepts 3],
      Listener, Listener, PollReturns 1 0, Listener, Listener, ProducerStop,
      ListenReturns 0 0]"




section \<open>Invariants of the listener\<close>

text \<open>The slot holds nothing or the descriptor of the current iteration, and it is
  empty from the teardown (line 129) until the next store (line 104).\<close>

definition slot_inv :: "system \<Rightarrow> bool" where
  "slot_inv sys =
     ((client_fd (shared sys) = - 1 \<or> client_fd (shared sys) = fd sys) \<and>
      (pc sys \<in> {AtEnd, AtListen, AtAccept, AtLock, AtPublish} \<longrightarrow> client_fd (shared sys) = - 1))"





section \<open>Lemmas\<close>

lemmas basics = pthread_mutex_lock_def pthread_mutex_unlock_def PRINT_ERR_def emit_def

lemma ucast_minus_one: "(ucast (- 1 :: 64 word) :: 32 word) = - 1"
  by (rule bit_word_eqI) (simp add: bit_simps)

subsection \<open>The write loop\<close>

text \<open>However the loop ends, it leaves \<^verbatim>\<open>client_fd\<close> alone and closes nothing; and once
  a \<^verbatim>\<open>write\<close> has failed, it returns \<^verbatim>\<open>true\<close>.\<close>

lemma write_loop_facts:
  "write_loop cfd eventlog sz rs s = out \<Longrightarrow>
     client_fd (state_of out) = client_fd s \<and>
     (\<exists>evs. trace (state_of out) = trace s @ evs \<and> (\<forall>c. EvClose c \<notin> set evs) \<and>
        ((\<exists>f e. EvWriteFailed f e \<in> set evs) \<longrightarrow> (\<exists>s'. out = Returned True s')))"
proof (induction rs arbitrary: sz s out)
  case Nil
  then show ?case by (auto simp: basics)
next
  case (Cons r rs)
  show ?case
  proof (cases "0 < sz")
    case False
    with Cons.prems show ?thesis by (auto simp: basics)
  next
    case True
    show ?thesis
    proof (cases r)
      case (WriteFails e)
      with True Cons.prems show ?thesis
        by (auto simp: basics sys_write_def ucast_minus_one)
    next
      case (WriteAccepts k)
      define s1 where "s1 = emit (EvWrite cfd (take (min k (unat sz)) eventlog)) s"
      define ret where "ret = (ucast (word_of_nat (min k (unat sz)) :: 64 word) :: 32 word)"
      show ?thesis
      proof (cases "ret = - 1")
        case True
        with \<open>0 < sz\<close> WriteAccepts Cons.prems show ?thesis
          by (auto simp: basics sys_write_def ret_def)
      next
        case False
        with \<open>0 < sz\<close> WriteAccepts Cons.prems
        have "write_loop cfd eventlog (sz - scast ret) rs s1 = out"
          by (simp add: sys_write_def ret_def s1_def)
        from Cons.IH[OF this] show ?thesis
          by (auto simp: s1_def emit_def)
      qed
    qed
  qed
qed

lemma writer_write_facts:
  "writer_write eventlog sz rs s = out \<Longrightarrow>
     client_fd (state_of out) = client_fd s \<and>
     (\<exists>evs. trace (state_of out) = trace s @ evs \<and> (\<forall>c. EvClose c \<notin> set evs) \<and>
        ((\<exists>f e. EvWriteFailed f e \<in> set evs) \<longrightarrow> (\<exists>s'. out = Returned True s')))"
proof (cases "client_fd s < 0")
  case True
  assume "writer_write eventlog sz rs s = out"
  with True show ?thesis by (auto simp: writer_write_def Let_def basics)
next
  case False
  assume "writer_write eventlog sz rs s = out"
  with False have "write_loop (client_fd s) eventlog sz rs (pthread_mutex_lock s) = out"
    by (simp add: writer_write_def Let_def basics)
  from write_loop_facts[OF this] show ?thesis
    by (auto simp: basics)
qed

lemma writer_write_client_fd:
  "writer_write eventlog sz rs s = Returned b s' \<Longrightarrow> client_fd s' = client_fd s"
  using writer_write_facts[of eventlog sz rs s "Returned b s'"] by simp

lemma writer_stop_client_fd: "client_fd (writer_stop s) = - 1"
  by (simp add: writer_stop_def Let_def basics)

subsection \<open>The wait loop\<close>

lemma wait_loop_returns:
  "wait_loop ws s = Returned u s' \<Longrightarrow> client_fd s' \<noteq> - 1"
  by (induction ws arbitrary: s)
     (auto simp: basics pthread_cond_wait_def split: if_splits wakeup.splits)

lemma wait_loop_spurious:
  "client_fd s = - 1 \<Longrightarrow>
   wait_loop (replicate n (Wakeup 0 (- 1))) s =
     Blocked (s\<lparr>trace := trace s @ replicate n EvCondWait\<rparr>)"
  by (induction n arbitrary: s)
     (auto simp: basics pthread_cond_wait_def replicate_append_same)

lemma wait_loop_wakes:
  "client_fd s = - 1 \<Longrightarrow> f \<noteq> - 1 \<Longrightarrow>
   wait_loop (replicate n (Wakeup 0 (- 1)) @ Wakeup 0 f # rest) s =
     Returned () (s\<lparr>client_fd := f,
                    trace := trace s @ replicate n EvCondWait @ [EvCondWait, EvUnlock]\<rparr>)"
proof (induction n arbitrary: s)
  case 0
  then show ?case
    by (cases rest) (simp_all add: basics pthread_cond_wait_def)
next
  case (Suc n)
  then show ?case
    by (simp add: basics pthread_cond_wait_def replicate_append_same)
qed

subsection \<open>The setup failures that do abort\<close>

lemma bind_failure_aborts:
  "bind_ret env = - 1 \<Longrightarrow> \<exists>s'. open_socket sock_path env s = Aborted s'"
  by (simp add: open_socket_def Let_def)

lemma listen_failure_aborts:
  "pc sys = AtListen \<Longrightarrow>
   \<exists>sys'. listen_socket_step (ListenReturns (- 1) e) sys = Some sys' \<and> pc sys' = AtAbort"
  by (simp add: Let_def)

subsection \<open>The slot invariant\<close>

lemma slot_inv_step:
  "slot_inv sys \<Longrightarrow> listen_socket_step l sys = Some sys' \<Longrightarrow> slot_inv sys'"
proof (cases l)
  case (ProducerWrite eventlog sz rs)
  assume "slot_inv sys" "listen_socket_step l sys = Some sys'"
  with ProducerWrite show ?thesis
    by (auto simp: slot_inv_def split: if_splits outcome.splits dest!: writer_write_client_fd)
next
  case ProducerStop
  assume "slot_inv sys" "listen_socket_step l sys = Some sys'"
  with ProducerStop show ?thesis
    by (auto simp: slot_inv_def writer_stop_client_fd split: if_splits)
next
  case Listener
  assume "slot_inv sys" "listen_socket_step l sys = Some sys'"
  with Listener show ?thesis
    by (cases "pc sys") (auto simp: slot_inv_def lemit_def)
qed (auto simp: slot_inv_def lemit_def Let_def split: if_splits)

lemma slot_inv_run:
  "slot_inv sys \<Longrightarrow> run ls sys = Some sys' \<Longrightarrow> slot_inv sys'"
  by (induction ls arbitrary: sys) (auto split: option.splits dest: slot_inv_step)

subsection \<open>The order of the listener's history\<close>











subsection \<open>A write that the kernel takes in one call\<close>

lemma ucast_small_not_minus_one:
  assumes "unat (sz :: 64 word) < 2 ^ 31"
  shows "(ucast sz :: 32 word) \<noteq> - 1"
proof
  assume "ucast sz = (- 1 :: 32 word)"
  then have "unat (ucast sz :: 32 word) = unat (- 1 :: 32 word)" by simp
  then have "take_bit 32 (unat sz) = (2 ^ 32 - 1 :: nat)"
    by (simp add: unsigned_ucast_eq unsigned_minus_1_eq_mask mask_eq_exp_minus_1)
  moreover from assms have "take_bit 32 (unat sz) = unat sz"
    by (simp add: take_bit_nat_eq_self)
  ultimately show False using assms by simp
qed

lemma sint_ucast_small:
  assumes "unat (sz :: 64 word) < 2 ^ 31"
  shows "sint (ucast sz :: 32 word) = uint sz"
proof -
  from assms have "int (unat sz) < int (2 ^ 31)" by (simp only: of_nat_less_iff)
  then have u: "uint sz < 2 ^ 31" by simp
  have n: "0 \<le> uint sz" by simp
  have "sint (ucast sz :: 32 word) = signed_take_bit 31 (uint sz)"
    by (simp add: signed_ucast_eq)
  also have "\<dots> = uint sz"
  proof (rule signed_take_bit_int_eq_self)
    have "(0::int) \<le> 2 ^ 31" by simp
    with n show "- (2 ^ 31) \<le> uint sz" by linarith
    show "uint sz < 2 ^ 31" by (rule u)
  qed
  finally show ?thesis .
qed

lemma scast_ucast_small:
  assumes "unat (sz :: 64 word) < 2 ^ 31"
  shows "(scast (ucast sz :: 32 word) :: 64 word) = sz"
proof -
  have "(scast (ucast sz :: 32 word) :: 64 word) = word_of_int (sint (ucast sz :: 32 word))"
    by (rule scast_eq)
  also have "\<dots> = word_of_int (uint sz)" by (simp only: sint_ucast_small[OF assms])
  also have "\<dots> = sz" by (rule word_of_int_uint)
  finally show ?thesis .
qed

text \<open>When the first \<^verbatim>\<open>write\<close> takes all \<open>sz\<close> bytes, the loop ends after it and the
  socket has received the buffer.\<close>

lemma writer_write_single_call:
  assumes c: "0 \<le> client_fd s" and p: "0 < sz" and b: "unat sz < 2 ^ 31"
      and k: "unat sz \<le> k"
  shows "writer_write eventlog sz (WriteAccepts k # rs) s =
           Returned True
             (s\<lparr>trace := trace s @
                  [EvLock, EvWrite (client_fd s) (take (unat sz) eventlog), EvUnlock]\<rparr>)"
proof -
  from k have m: "min k (unat sz) = unat sz" by simp
  have w: "(word_of_nat (unat sz) :: 64 word) = sz" by simp
  have z: "write_loop cfd eventlog 0 rs t = Returned True (pthread_mutex_unlock t)"
    for cfd t
    by (cases rs) simp_all
  from c p show ?thesis
    by (simp add: writer_write_def Let_def sys_write_def m w z
          ucast_small_not_minus_one[OF b] scast_ucast_small[OF b] basics)
qed

subsection \<open>The concrete runs\<close>

lemma listener_spawned_start: "listener_start listener_spawned"
  by (simp add: listener_start_def listener_spawned_def connected_def startup_def)

lemma one_session_run:
  "run one_session listener_spawned =
     Some \<lparr>shared = (connected (- 1))
              \<lparr>trace := [EvLock, EvWrite 7 [97, 98, 99], EvUnlock, EvLock, EvUnlock]\<rparr>,
           pc = AtAccept, fd = 7, pfd_fd = 7,
           ltrace = [EvListen 3 5 0, EvAccept 3 7, EvLock, EvStoreClientFd 7, EvUnlock,
                     EvStartEventLogging, EvCondBroadcast, EvPoll 7 1,
                     EvStoreClientFd (- 1), EvEndEventLogging, EvListen 3 5 0]\<rparr>"
  by (simp add: one_session_def listener_spawned_def connected_def startup_def lemit_def
        mutex_free_def writer_write_def writer_stop_def basics sys_write_def
        LISTEN_BACKLOG_def EAGAIN_def)





section \<open>The claims\<close>

text \<open>
  C1. A write issued while a client is connected should deliver all \<open>length\<close> bytes of the
  buffer to the client's socket, in order, by reissuing \<^verbatim>\<open>write\<close> until everything is sent
  or an error occurs. The loop reissues \<^verbatim>\<open>write\<close> with the remaining count but with the
  pointer it started with. At the buffer \<open>abc\<close>, when the kernel takes two bytes and then
  one, the call returns \<^verbatim>\<open>true\<close> and the socket has received \<open>aba\<close>.
\<close>

theorem writer_write_partial_write_repeats_prefix:
  "writer_write [97, 98, 99] 3 [WriteAccepts 2, WriteAccepts 1] (connected 5) =
     Returned True
       ((connected 5)\<lparr>trace := [EvLock, EvWrite 5 [97, 98], EvWrite 5 [97], EvUnlock]\<rparr>) \<and>
   delivered 5 [EvLock, EvWrite 5 [97, 98], EvWrite 5 [97], EvUnlock] = [97, 98, 97]"
  by (simp add: writer_write_def connected_def startup_def basics sys_write_def)

text \<open>
  C2. Whatever the listener, the kernel and the threads of the runtime do, one after the
  other, from the start of the listener thread: the slot records no descriptor or the one
  descriptor that the current iteration accepted, and while the listener is at \<^verbatim>\<open>listen\<close>
  or \<^verbatim>\<open>accept\<close> the slot has been cleared (\<^verbatim>\<open>client_fd\<close> is \<open>-1\<close>).
\<close>

theorem listener_single_client:
  "listener_start s0 \<Longrightarrow> run ls s0 = Some s \<Longrightarrow>
     (ActiveClient (shared s) = None \<or> ActiveClient (shared s) = Some (fd s)) \<and>
     (pc s = AtListen \<or> pc s = AtAccept \<longrightarrow> client_fd (shared s) = - 1)"
proof -
  assume a: "listener_start s0" and b: "run ls s0 = Some s"
  from a have "slot_inv s0" by (simp add: listener_start_def slot_inv_def)
  from slot_inv_run[OF this b] show ?thesis
    by (auto simp: slot_inv_def ActiveClient_def)
qed

theorem listener_single_client_witness:
  "listener_start listener_spawned \<and>
   (\<exists>s. run one_session listener_spawned = Some s \<and> pc s = AtAccept \<and>
        client_fd (shared s) = - 1 \<and> ActiveClient (shared s) = None)"
  using listener_single_client[OF listener_spawned_start one_session_run]
        listener_spawned_start one_session_run
  by (simp add: ActiveClient_def connected_def startup_def)






text \<open>
  C5. A failure of \<^verbatim>\<open>bind\<close> or of \<^verbatim>\<open>listen\<close> aborts the process (lemmas
  \<open>bind_failure_aborts\<close> and \<open>listen_failure_aborts\<close>). A failure to spawn the thread
  should, too. When \<^verbatim>\<open>pthread_create\<close> returns \<^verbatim>\<open>EAGAIN\<close>, \<^verbatim>\<open>open_socket\<close> prints the message
  and returns to its caller.
\<close>

theorem open_socket_spawn_failure_returns:
  "open_socket ''/tmp/test.sock'' spawn_fails startup =
     Returned ()
       (startup\<lparr>listen_fd := 3,
          trace := [EvSocket 3, EvUnlink ''/tmp/test.sock'', EvBind 3 ''/tmp/test.sock'' 0,
                    EvPthreadCreate 11, EvPrintErr (FailedToSpawn 11)]\<rparr>)"
  by (simp add: open_socket_def spawn_fails_def startup_def basics set_errno_def
        sizeof_sun_path_def)



text \<open>
  C7. \<^verbatim>\<open>writer_stop\<close> with no client changes nothing: with \<^verbatim>\<open>client_fd\<close> at \<open>-1\<close> the state
  afterwards is the state before, apart from the lock and unlock in the trace, and for
  any negative \<^verbatim>\<open>client_fd\<close> it calls nothing but lock and unlock. After any call the slot
  is empty, and a second call changes nothing more.
\<close>

theorem writer_stop_idempotent:
  "(client_fd s = - 1 \<longrightarrow> writer_stop s = s\<lparr>trace := trace s @ [EvLock, EvUnlock]\<rparr>) \<and>
   (client_fd s < 0 \<longrightarrow> new_events s (writer_stop s) = [EvLock, EvUnlock]) \<and>
   client_fd (writer_stop s) = - 1 \<and>
   ActiveClient (writer_stop s) = None \<and>
   writer_stop (writer_stop s) =
     (writer_stop s)\<lparr>trace := trace (writer_stop s) @ [EvLock, EvUnlock]\<rparr>"
  by (simp add: writer_stop_def Let_def basics ActiveClient_def new_events_def)

theorem writer_stop_idempotent_witness:
  "client_fd startup = - 1 \<and> writer_stop startup = startup\<lparr>trace := [EvLock, EvUnlock]\<rparr> \<and>
   writer_stop (connected 5) = (connected (- 1))\<lparr>trace := [EvLock, EvClose 5, EvUnlock]\<rparr> \<and>
   ActiveClient (writer_stop (connected 5)) = None"
  using writer_stop_idempotent[of startup] writer_stop_idempotent[of "connected 5"]
  by (simp add: startup_def connected_def writer_stop_def basics)

text \<open>
  C8. \<^verbatim>\<open>wait_for_connection\<close> returns only in a state where \<^verbatim>\<open>client_fd\<close> is not \<open>-1\<close>. Any
  number of spurious wakeups leaves it waiting; after them, the first wakeup that finds
  a client makes it return.
\<close>

theorem wait_for_connection_needs_client:
  "(wait_for_connection ws s = Returned u s' \<longrightarrow> client_fd s' \<noteq> - 1) \<and>
   (client_fd s = - 1 \<longrightarrow>
      wait_for_connection (replicate n (Wakeup 0 (- 1))) s =
        Blocked (s\<lparr>trace := trace s @ EvLock # replicate n EvCondWait\<rparr>)) \<and>
   (client_fd s = - 1 \<and> f \<noteq> - 1 \<longrightarrow>
      wait_for_connection (replicate n (Wakeup 0 (- 1)) @ Wakeup 0 f # rest) s =
        Returned () (s\<lparr>client_fd := f,
           trace := trace s @ EvLock # replicate n EvCondWait @ [EvCondWait, EvUnlock]\<rparr>))"
proof (intro conjI impI)
  assume "wait_for_connection ws s = Returned u s'"
  then show "client_fd s' \<noteq> - 1"
    by (auto simp: wait_for_connection_def dest: wait_loop_returns)
next
  assume "client_fd s = - 1"
  then show "wait_for_connection (replicate n (Wakeup 0 (- 1))) s =
        Blocked (s\<lparr>trace := trace s @ EvLock # replicate n EvCondWait\<rparr>)"
    using wait_loop_spurious[of "pthread_mutex_lock s" n]
    by (simp add: wait_for_connection_def basics)
next
  assume "client_fd s = - 1 \<and> f \<noteq> - 1"
  then show "wait_for_connection (replicate n (Wakeup 0 (- 1)) @ Wakeup 0 f # rest) s =
        Returned () (s\<lparr>client_fd := f,
           trace := trace s @ EvLock # replicate n EvCondWait @ [EvCondWait, EvUnlock]\<rparr>)"
    using wait_loop_wakes[of "pthread_mutex_lock s" f n rest]
    by (simp add: wait_for_connection_def basics)
qed

theorem wait_for_connection_needs_client_witness:
  "client_fd startup = - 1 \<and>
   wait_for_connection [Wakeup 0 (- 1), Wakeup 0 (- 1)] startup =
     Blocked (startup\<lparr>trace := [EvLock, EvCondWait, EvCondWait]\<rparr>) \<and>
   wait_for_connection [Wakeup 0 (- 1), Wakeup 0 (- 1), Wakeup 0 7] startup =
     Returned () (startup\<lparr>client_fd := 7,
        trace := [EvLock, EvCondWait, EvCondWait, EvCondWait, EvUnlock]\<rparr>) \<and>
   client_fd (startup\<lparr>client_fd := 7,
        trace := [EvLock, EvCondWait, EvCondWait, EvCondWait, EvUnlock]\<rparr>) \<noteq> - 1"
  using wait_for_connection_needs_client[of "[Wakeup 0 (- 1), Wakeup 0 (- 1), Wakeup 0 7]"
          startup "()" "startup\<lparr>client_fd := 7,
        trace := [EvLock, EvCondWait, EvCondWait, EvCondWait, EvUnlock]\<rparr>" "Suc (Suc 0)" 7 "[]"]
  by (simp add: startup_def)

text \<open>
  C9. Called with a null \<^verbatim>\<open>sock_path\<close> while \<^verbatim>\<open>GHC_EVENTLOG_SOCKET\<close> is not set,
  \<^verbatim>\<open>eventlog_socket_start\<close> returns. Its only calls are the one-time initialisation of the
  mutex and the condition and the \<^verbatim>\<open>getenv\<close>: it creates, binds and listens on no socket,
  calls no hook of the runtime, and leaves the trace flags and both descriptors as they
  were.
\<close>

theorem eventlog_socket_start_no_address:
  "getenv_reply env = None \<Longrightarrow>
   \<exists>s'. eventlog_socket_start tt None wait env s = Returned () s' \<and>
        new_events s s' =
          (if initialized s then [] else [EvMutexInit, EvCondInit]) @
          [EvGetenv ''GHC_EVENTLOG_SOCKET''] \<and>
        TraceFlags s' = TraceFlags s \<and> listen_fd s' = listen_fd s \<and>
        client_fd s' = client_fd s"
  by (simp add: eventlog_socket_start_def init_once_def emit_def new_events_def)

theorem eventlog_socket_start_no_address_witness:
  "getenv_reply no_fallback = None \<and>
   eventlog_socket_start False None True no_fallback startup =
     Returned () (startup\<lparr>initialized := True,
        trace := [EvMutexInit, EvCondInit, EvGetenv ''GHC_EVENTLOG_SOCKET'']\<rparr>)"
  using eventlog_socket_start_no_address[of no_fallback False True startup]
  by (simp add: no_fallback_def startup_def eventlog_socket_start_def init_once_def emit_def)

text \<open>
  C10. A write of length zero returns \<^verbatim>\<open>true\<close> after lock and unlock, with or without a
  client and whatever the kernel would answer: the loop body is not entered and
  \<^verbatim>\<open>write\<close> is not called.
\<close>

theorem writer_write_zero_length:
  "writer_write eventlog 0 rs s = Returned True (s\<lparr>trace := trace s @ [EvLock, EvUnlock]\<rparr>)"
  by (cases rs) (simp_all add: writer_write_def Let_def basics)

end
